theory Spec2Isabelle
  imports Complex_Main "HOL-Library.AList"
begin

section \<open>The chat relay of backend/main.go\<close>

text \<open>
  The repository has one piece of decision logic: \<open>chatHandler\<close> in \<open>backend/main.go\<close>, the
  handler of \<open>POST /chat/\<close>. It decodes the request body, checks the \<open>question\<close> field,
  posts a fixed chat-completion payload to the upstream API and walks the decoded answer
  envelope with Go type assertions.

  The handler is modelled as a function from the request body to the list of requests it
  handed to \<open>client.Do\<close> and the reply that reaches the caller. What the handler obtains from
  outside the repository is a parameter, collected in the record \<open>runtime\<close>: the process
  environment, the byte-level scanner and printer of \<open>encoding/json\<close>, and the upstream
  server seen through \<open>client.Do\<close>, both the result of a call and the HTTP requests the call
  puts on the wire. Calls of \<open>log.Printf\<close> write to the process log only and are left out.
  The request is taken to carry a JSON content type, as the front end sends it
  (\<open>axios.post\<close> with an object), so that Fiber's \<open>BodyParser\<close> hands the body to
  \<open>json.Unmarshal\<close>.
\<close>

subsection \<open>JSON values as encoding/json decodes them into interface values\<close>

text \<open>
  Decoding into \<open>interface{}\<close> yields \<open>nil\<close>, \<open>bool\<close>, \<open>float64\<close>, \<open>string\<close>,
  \<open>[]interface{}\<close> or \<open>map[string]interface{}\<close>. An object keeps its members in the order
  of the text; Go stores them into a map one after the other, so a repeated key keeps its last
  value (\<open>mapIndex\<close> below).
\<close>

datatype json =
    JNull
  | JBool bool
  | JNumber rat
  | JString string
  | JArray "json list"
  | JObject "(string \<times> json) list"

type_synonym gomap = "(string \<times> json) list"

text \<open>\<open>m[k]\<close> on a Go map: the value stored last under \<open>k\<close>, \<open>None\<close> (the nil interface)
  when the key is missing. The nil map is the empty list.\<close>

definition mapIndex :: "gomap \<Rightarrow> string \<Rightarrow> json option" where
  "mapIndex m k = map_of (rev m) k"

text \<open>The type assertions \<open>v.(string)\<close>, \<open>v.([]interface{})\<close> and
  \<open>v.(map[string]interface{})\<close> in their two-result form: \<open>None\<close> is \<open>ok = false\<close>.\<close>

fun assert_string :: "json option \<Rightarrow> string option" where
  "assert_string (Some (JString s)) = Some s"
| "assert_string _ = None"

fun assert_slice :: "json option \<Rightarrow> json list option" where
  "assert_slice (Some (JArray xs)) = Some xs"
| "assert_slice _ = None"

fun assert_map :: "json option \<Rightarrow> gomap option" where
  "assert_map (Some (JObject m)) = Some m"
| "assert_map _ = None"

subsection \<open>HTTP messages\<close>

record Request =
  Method :: string
  URL :: string
  Header :: "(string \<times> string) list"
  ReqBody :: string

text \<open>An upstream response as \<open>client.Do\<close> returns it: the status line text, the status code,
  and what \<open>ioutil.ReadAll(resp.Body)\<close> will give, an error text or the bytes.\<close>

record Response =
  Status :: string
  StatusCode :: int
  Body :: "string + string"

text \<open>The reply as the caller receives it: the status code of the status line, and the members
  of the JSON object in the body, \<open>None\<close> when the response is written without a body.\<close>

record Reply =
  Code :: int
  Json :: "gomap option"

text \<open>\<open>Do\<close> is the result of \<open>client.Do(req)\<close>: an error text or the response. \<open>RoundTrips\<close>
  lists the HTTP requests that this call of \<open>client.Do\<close> puts on the wire, in order. The client
  of line 97 is the zero value of \<open>http.Client\<close>, whose redirect policy follows up to ten
  redirects: the list starts with the request itself and has one more request for each redirect
  followed.\<close>

record runtime =
  Getenv :: "string \<Rightarrow> string"
  Marshal :: "json \<Rightarrow> string"
  Decode :: "string \<Rightarrow> string + json"
  Do :: "Request \<Rightarrow> string + Response"
  RoundTrips :: "Request \<Rightarrow> Request list"

definition StatusOK :: int where "StatusOK = 200"
definition StatusBadRequest :: int where "StatusBadRequest = 400"
definition StatusInternalServerError :: int where "StatusInternalServerError = 500"

subsection \<open>Library calls of the handler\<close>

text \<open>\<open>json.Unmarshal(data, &m)\<close> for a nil \<open>m\<close> of type \<open>map[string]interface{}\<close>. The
  scanner \<open>Decode\<close> rejects text that is not JSON with its error text. A JSON object fills the
  map. JSON \<open>null\<close> is no error and leaves the map nil. Any other value is an
  \<open>UnmarshalTypeError\<close>, whose text names the kind of value.\<close>

fun kindOf :: "json \<Rightarrow> string" where
  "kindOf JNull = ''null''"
| "kindOf (JBool _) = ''bool''"
| "kindOf (JNumber _) = ''number''"
| "kindOf (JString _) = ''string''"
| "kindOf (JArray _) = ''array''"
| "kindOf (JObject _) = ''object''"

definition UnmarshalTypeError :: "json \<Rightarrow> string" where
  "UnmarshalTypeError v =
     ''json: cannot unmarshal '' @ kindOf v @ '' into Go value of type map[string]interface {}''"

definition Unmarshal :: "runtime \<Rightarrow> string \<Rightarrow> string + gomap" where
  "Unmarshal rt data =
     (case Decode rt data of
        Inl err \<Rightarrow> Inl err
      | Inr v \<Rightarrow>
          (case v of
             JObject m \<Rightarrow> Inr m
           | JNull \<Rightarrow> Inr []
           | _ \<Rightarrow> Inl (UnmarshalTypeError v)))"

text \<open>\<open>c.BodyParser(&requestData)\<close> on a request with a JSON content type.\<close>

definition BodyParser :: "runtime \<Rightarrow> string \<Rightarrow> string + gomap" where
  "BodyParser rt body = Unmarshal rt body"

text \<open>\<open>http.NewRequest\<close> fails on a method that is not a token and on a URL that does not
  parse. The handler passes the constants \<open>POST\<close> and \<open>apiURL\<close>, for which it succeeds; the
  handler's error branch is kept in the model all the same.\<close>

definition NewRequest :: "string \<Rightarrow> string \<Rightarrow> string \<Rightarrow> string + Request" where
  "NewRequest method url body =
     Inr \<lparr>Method = method, URL = url, Header = [], ReqBody = body\<rparr>"

definition Header_Set :: "string \<Rightarrow> string \<Rightarrow> Request \<Rightarrow> Request" where
  "Header_Set k v req = req\<lparr>Header := AList.update k v (Header req)\<rparr>"

definition ReadAll :: "string + string \<Rightarrow> string + string" where
  "ReadAll b = b"

text \<open>\<open>c.Status(code).JSON(m)\<close> sets the status code and the body of the response that
  fasthttp then writes. Two rules of fasthttp's response header decide what reaches the caller.
  Its \<open>StatusCode()\<close> reads a stored code of 0, the zero value, as 200. Its
  \<open>mustSkipContentLength()\<close> is true for the codes that must not carry a message body, the 1xx
  codes, 204 and 304, and a response with such a code is written without its body.\<close>

definition ResponseHeader_StatusCode :: "int \<Rightarrow> int" where
  "ResponseHeader_StatusCode statusCode = (if statusCode = 0 then StatusOK else statusCode)"

definition mustSkipContentLength :: "int \<Rightarrow> bool" where
  "mustSkipContentLength statusCode =
     (if statusCode < 100 \<or> statusCode = StatusOK then False
      else statusCode = 304 \<or> statusCode = 204 \<or> statusCode < 200)"

definition JSON :: "int \<Rightarrow> gomap \<Rightarrow> Reply" where
  "JSON code m =
     (let statusCode = ResponseHeader_StatusCode code in
      \<lparr>Code = statusCode,
       Json = (if mustSkipContentLength statusCode then None else Some m)\<rparr>)"

subsection \<open>chatHandler\<close>

definition apiURL :: string where
  "apiURL = ''https://integrate.api.nvidia.com/v1/chat/completions''"

text \<open>The map literal \<open>requestPayload\<close> of lines 63 to 78.\<close>

definition requestPayload :: "string \<Rightarrow> json" where
  "requestPayload question =
     JObject
       [(''model'', JString ''meta/llama3-70b-instruct''),
        (''messages'', JArray
           [JObject
              [(''role'', JString ''system''),
               (''content'', JString ''You are an AI that provides direct answers to coding questions.'')],
            JObject
              [(''role'', JString ''user''),
               (''content'', JString question)]]),
        (''temperature'', JNumber (1 / 2)),
        (''top_p'', JNumber 1),
        (''max_tokens'', JNumber 1024)]"

text \<open>The handler, lines 40 to 168, branch by branch in the order of the source. The first
  component of the result lists the requests handed to \<open>client.Do\<close>, the second is the reply
  that reaches the caller. A reply sent with \<open>c.JSON\<close> alone has Fiber's default status
  200.\<close>

definition chatHandler :: "runtime \<Rightarrow> string \<Rightarrow> Request list \<times> Reply" where
  "chatHandler rt reqBody =
    (let apiKey = Getenv rt ''NVIDIA_API_KEY'' in
     case BodyParser rt reqBody of
       Inl err \<Rightarrow>
         ([], JSON StatusBadRequest [(''error'', JString ''Invalid request body'')])
     | Inr requestData \<Rightarrow>
    (case assert_string (mapIndex requestData ''question'') of
       None \<Rightarrow>
         ([], JSON StatusBadRequest
                [(''error'', JString ''Invalid question format or empty question'')])
     | Some question \<Rightarrow>
    if question = '''' then
         ([], JSON StatusBadRequest
                [(''error'', JString ''Invalid question format or empty question'')])
    else
    (let jsonValue = Marshal rt (requestPayload question) in
     case NewRequest ''POST'' apiURL jsonValue of
       Inl err \<Rightarrow>
         ([], JSON StatusInternalServerError
                [(''error'', JString (''Error creating request: '' @ err))])
     | Inr req0 \<Rightarrow>
    (let req = Header_Set ''Authorization'' (''Bearer '' @ apiKey)
                 (Header_Set ''Content-Type'' ''application/json'' req0) in
     case Do rt req of
       Inl err \<Rightarrow>
         ([req], JSON StatusInternalServerError
                   [(''error'', JString (''Error sending request: '' @ err))])
     | Inr resp \<Rightarrow>
    (case ReadAll (Body resp) of
       Inl err \<Rightarrow>
         ([req], JSON StatusInternalServerError
                   [(''error'', JString (''Error reading response body: '' @ err))])
     | Inr body \<Rightarrow>
    if StatusCode resp \<noteq> StatusOK then
         ([req], JSON (StatusCode resp)
                   [(''error'', JString (''API returned non-200 status: '' @ Status resp
                                          @ [CHR 0x0A] @ ''Body: '' @ body))])
    else
    (case Unmarshal rt body of
       Inl err \<Rightarrow>
         ([req], JSON StatusInternalServerError
                   [(''error'', JString (''Error parsing JSON response: '' @ err))])
     | Inr result \<Rightarrow>
    (case assert_slice (mapIndex result ''choices'') of
       None \<Rightarrow>
         ([req], JSON StatusInternalServerError
                   [(''error'', JString ''Unexpected response structure from API'')])
     | Some choices \<Rightarrow>
    (case choices of
       [] \<Rightarrow>
         ([req], JSON StatusInternalServerError
                   [(''error'', JString ''Unexpected response structure from API'')])
     | choice0 # _ \<Rightarrow>
    (case assert_map (Some choice0) of
       None \<Rightarrow>
         ([req], JSON StatusInternalServerError
                   [(''error'', JString ''Unexpected response structure from API'')])
     | Some firstChoice \<Rightarrow>
    (case assert_map (mapIndex firstChoice ''message'') of
       None \<Rightarrow>
         ([req], JSON StatusInternalServerError
                   [(''error'', JString ''Unexpected response structure from API'')])
     | Some message \<Rightarrow>
    (case assert_string (mapIndex message ''content'') of
       None \<Rightarrow>
         ([req], JSON StatusInternalServerError
                   [(''error'', JString ''Unexpected response structure from API'')])
     | Some answer \<Rightarrow>
         ([req], JSON StatusOK [(''answer'', JString answer)]))))))))))))"

text \<open>The request that lines 80 to 94 put together for a question: the marshalled payload,
  posted to \<open>apiURL\<close> with the content type and the bearer credential of the environment.\<close>

definition upstreamRequest :: "runtime \<Rightarrow> string \<Rightarrow> Request" where
  "upstreamRequest rt question =
     \<lparr>Method = ''POST'', URL = apiURL,
      Header = [(''Content-Type'', ''application/json''),
                (''Authorization'', ''Bearer '' @ Getenv rt ''NVIDIA_API_KEY'')],
      ReqBody = Marshal rt (requestPayload question)\<rparr>"

text \<open>The HTTP requests one inbound request puts on the wire: those of every call of
  \<open>client.Do\<close> the handler made.\<close>

definition wireRequests :: "runtime \<Rightarrow> string \<Rightarrow> Request list" where
  "wireRequests rt reqBody = concat (map (RoundTrips rt) (fst (chatHandler rt reqBody)))"

subsection \<open>The path choices[0].message.content, as the specification words it\<close>

text \<open>The specification asks for a \<open>choices\<close> array with at least one element whose first
  element has \<open>message.content\<close> as a string. \<open>contentOf\<close> reads that path off a decoded
  object; it is compared with the handler's chain of type assertions below.\<close>

definition contentOf :: "gomap \<Rightarrow> string option" where
  "contentOf result =
     (case mapIndex result ''choices'' of
        Some (JArray (JObject choice # _)) \<Rightarrow>
          (case mapIndex choice ''message'' of
             Some (JObject message) \<Rightarrow>
               (case mapIndex message ''content'' of
                  Some (JString content) \<Rightarrow> Some content
                | _ \<Rightarrow> None)
           | _ \<Rightarrow> None)
      | _ \<Rightarrow> None)"

subsection \<open>A concrete runtime for running the handler\<close>

text \<open>A scanner that knows the texts used in the examples and rejects every other text, and
  a printer that knows the payloads of the questions used there.\<close>

definition exampleDecode :: "string \<Rightarrow> string + json" where
  \<open>exampleDecode s =
     (if s = ''{"question":"hi"}'' then Inr (JObject [(''question'', JString ''hi'')])
      else if s = ''{"question":"hi","model":"tiny","temperature":2}'' then
        Inr (JObject [(''question'', JString ''hi''), (''model'', JString ''tiny''),
                      (''temperature'', JNumber 2)])
      else if s = ''{"question":""}'' then Inr (JObject [(''question'', JString '''')])
      else if s = ''{"question":" "}'' then Inr (JObject [(''question'', JString '' '')])
      else if s = ''{"choices":[{"message":{"content":"42"}}]}'' then
        Inr (JObject [(''choices'', JArray
               [JObject [(''message'', JObject [(''content'', JString ''42'')])]])])
      else if s = ''{"choices":[]}'' then Inr (JObject [(''choices'', JArray [])])
      else if s = ''{}'' then Inr (JObject [])
      else if s = ''[]'' then Inr (JArray [])
      else if s = ''null'' then Inr JNull
      else if s = ''{"question"'' then Inl ''unexpected end of JSON input''
      else Inl ''invalid character'')\<close>

definition exampleMarshal :: "json \<Rightarrow> string" where
  \<open>exampleMarshal v =
     (if v = requestPayload ''hi'' then
        ''{"max_tokens":1024,"messages":[{"content":"You are an AI that provides direct answers to coding questions.","role":"system"},{"content":"hi","role":"user"}],"model":"meta/llama3-70b-instruct","temperature":0.5,"top_p":1}''
      else if v = requestPayload '' '' then
        ''{"max_tokens":1024,"messages":[{"content":"You are an AI that provides direct answers to coding questions.","role":"system"},{"content":" ","role":"user"}],"model":"meta/llama3-70b-instruct","temperature":0.5,"top_p":1}''
      else '''')\<close>

text \<open>The runtime of the examples: the upstream is the parameter, and it redirects nowhere, so
  a call of \<open>client.Do\<close> puts its one request on the wire.\<close>

definition exampleRuntime :: "(Request \<Rightarrow> string + Response) \<Rightarrow> runtime" where
  "exampleRuntime upstream =
     \<lparr>Getenv = (\<lambda>k. if k = ''NVIDIA_API_KEY'' then ''nvapi-0000'' else ''''),
      Marshal = exampleMarshal, Decode = exampleDecode, Do = upstream,
      RoundTrips = (\<lambda>req. [req])\<rparr>"

text \<open>An upstream that answers the first request with \<open>307 Temporary Redirect\<close> and
  \<open>Location: /v2/chat/completions\<close>. The client follows it: for 307 it repeats the method, the
  body and the headers (the host is the same, so the credential stays) and adds the
  \<open>Referer\<close> of the request before.\<close>

definition redirectedOnce :: "Request \<Rightarrow> Request list" where
  "redirectedOnce req =
     [req,
      req\<lparr>URL := ''https://integrate.api.nvidia.com/v2/chat/completions'',
          Header := Header req @ [(''Referer'', URL req)]\<rparr>]"

definition redirectingRuntime :: "(Request \<Rightarrow> string + Response) \<Rightarrow> runtime" where
  "redirectingRuntime upstream = (exampleRuntime upstream)\<lparr>RoundTrips := redirectedOnce\<rparr>"

text \<open>An upstream that answers every request with one response, and one that cannot be
  reached.\<close>

definition answering :: "string \<Rightarrow> int \<Rightarrow> string \<Rightarrow> Request \<Rightarrow> string + Response" where
  "answering status code body req = Inr \<lparr>Status = status, StatusCode = code, Body = Inr body\<rparr>"

definition unreachable :: "Request \<Rightarrow> string + Response" where
  \<open>unreachable req =
     Inl ''Post "https://integrate.api.nvidia.com/v1/chat/completions": dial tcp 203.0.113.7:443: connect: connection refused''\<close>

section \<open>Properties of the handler\<close>

subsection \<open>Unfolding the handler stage by stage\<close>

text \<open>The codes the handler sets itself carry their body; a code taken from the upstream
  carries it unless fasthttp skips the body for that code.\<close>

lemmas JSON_eval = JSON_def ResponseHeader_StatusCode_def mustSkipContentLength_def
  StatusOK_def Let_def

lemma JSON_with_body:
  "JSON 200 m = \<lparr>Code = 200, Json = Some m\<rparr>"
  "JSON 400 m = \<lparr>Code = 400, Json = Some m\<rparr>"
  "JSON 500 m = \<lparr>Code = 500, Json = Some m\<rparr>"
  by (simp_all add: JSON_eval)


lemma JSON_without_body:
  "mustSkipContentLength code \<Longrightarrow> JSON code m = \<lparr>Code = code, Json = None\<rparr>"
  by (auto simp: JSON_eval split: if_splits)

lemmas handler_defs = chatHandler_def NewRequest_def
  Header_Set_def ReadAll_def JSON_with_body StatusOK_def StatusBadRequest_def
  StatusInternalServerError_def upstreamRequest_def

lemma BodyParser_object:
  "Decode rt reqBody = Inr (JObject m) \<Longrightarrow> BodyParser rt reqBody = Inr m"
  by (simp add: BodyParser_def Unmarshal_def)

lemma assert_string_Some: "assert_string x = Some s \<longleftrightarrow> x = Some (JString s)"
  by (cases x rule: assert_string.cases) auto

lemma assert_slice_Some: "assert_slice x = Some xs \<longleftrightarrow> x = Some (JArray xs)"
  by (cases x rule: assert_slice.cases) auto

lemma assert_map_Some: "assert_map x = Some m \<longleftrightarrow> x = Some (JObject m)"
  by (cases x rule: assert_map.cases) auto

text \<open>What the handler does once the question has passed validation: one request, then the
  reply is decided by the upstream's outcome.\<close>

lemma chatHandler_validated:
  assumes "Decode rt reqBody = Inr (JObject m)"
    and "mapIndex m ''question'' = Some (JString q)" and "q \<noteq> ''''"
  shows "fst (chatHandler rt reqBody) = [upstreamRequest rt q]"
  using assms
  by (simp add: handler_defs BodyParser_object Let_def
      split: sum.splits option.splits list.splits json.splits)

lemma chatHandler_unreachable:
  assumes "Decode rt reqBody = Inr (JObject m)"
    and "mapIndex m ''question'' = Some (JString q)" and "q \<noteq> ''''"
    and "Do rt (upstreamRequest rt q) = Inl err"
  shows "chatHandler rt reqBody =
           ([upstreamRequest rt q],
            \<lparr>Code = 500, Json = Some [(''error'', JString (''Error sending request: '' @ err))]\<rparr>)"
  using assms by (simp add: handler_defs BodyParser_object Let_def)

lemma chatHandler_read_failed:
  assumes "Decode rt reqBody = Inr (JObject m)"
    and "mapIndex m ''question'' = Some (JString q)" and "q \<noteq> ''''"
    and "Do rt (upstreamRequest rt q) = Inr resp" and "Body resp = Inl err"
  shows "chatHandler rt reqBody =
           ([upstreamRequest rt q],
            \<lparr>Code = 500, Json = Some [(''error'', JString (''Error reading response body: '' @ err))]\<rparr>)"
  using assms by (simp add: handler_defs BodyParser_object Let_def)

lemma chatHandler_not_200:
  assumes "Decode rt reqBody = Inr (JObject m)"
    and "mapIndex m ''question'' = Some (JString q)" and "q \<noteq> ''''"
    and "Do rt (upstreamRequest rt q) = Inr resp" and "Body resp = Inr body"
    and "StatusCode resp \<noteq> 200"
  shows "chatHandler rt reqBody =
           ([upstreamRequest rt q],
            JSON (StatusCode resp)
              [(''error'', JString (''API returned non-200 status: '' @ Status resp
                                    @ [CHR 0x0A] @ ''Body: '' @ body))])"
  using assms by (simp add: handler_defs BodyParser_object Let_def)

lemma chatHandler_parse_error:
  assumes "Decode rt reqBody = Inr (JObject m)"
    and "mapIndex m ''question'' = Some (JString q)" and "q \<noteq> ''''"
    and "Do rt (upstreamRequest rt q) = Inr resp" and "Body resp = Inr body"
    and "StatusCode resp = 200" and "Unmarshal rt body = Inl err"
  shows "chatHandler rt reqBody =
           ([upstreamRequest rt q],
            \<lparr>Code = 500, Json = Some [(''error'', JString (''Error parsing JSON response: '' @ err))]\<rparr>)"
  using assms by (simp add: handler_defs BodyParser_object Let_def)

text \<open>The handler's chain of type assertions reads the same path as \<open>contentOf\<close>.\<close>

lemma chatHandler_extract:
  assumes "Decode rt reqBody = Inr (JObject m)"
    and "mapIndex m ''question'' = Some (JString q)" and "q \<noteq> ''''"
    and "Do rt (upstreamRequest rt q) = Inr resp" and "Body resp = Inr body"
    and "StatusCode resp = 200" and "Unmarshal rt body = Inr result"
  shows "chatHandler rt reqBody =
           ([upstreamRequest rt q],
            case contentOf result of
              None \<Rightarrow> \<lparr>Code = 500,
                        Json = Some [(''error'', JString ''Unexpected response structure from API'')]\<rparr>
            | Some answer \<Rightarrow> \<lparr>Code = 200, Json = Some [(''answer'', JString answer)]\<rparr>)"
proof -
  have "chatHandler rt reqBody =
    ([upstreamRequest rt q],
     case assert_slice (mapIndex result ''choices'') of
       None \<Rightarrow> \<lparr>Code = 500, Json = Some [(''error'', JString ''Unexpected response structure from API'')]\<rparr>
     | Some choices \<Rightarrow>
    (case choices of
       [] \<Rightarrow> \<lparr>Code = 500, Json = Some [(''error'', JString ''Unexpected response structure from API'')]\<rparr>
     | choice0 # _ \<Rightarrow>
    (case assert_map (Some choice0) of
       None \<Rightarrow> \<lparr>Code = 500, Json = Some [(''error'', JString ''Unexpected response structure from API'')]\<rparr>
     | Some firstChoice \<Rightarrow>
    (case assert_map (mapIndex firstChoice ''message'') of
       None \<Rightarrow> \<lparr>Code = 500, Json = Some [(''error'', JString ''Unexpected response structure from API'')]\<rparr>
     | Some message \<Rightarrow>
    (case assert_string (mapIndex message ''content'') of
       None \<Rightarrow> \<lparr>Code = 500, Json = Some [(''error'', JString ''Unexpected response structure from API'')]\<rparr>
     | Some answer \<Rightarrow> \<lparr>Code = 200, Json = Some [(''answer'', JString answer)]\<rparr>)))))"
    using assms
    by (simp add: handler_defs BodyParser_object Let_def split: option.splits list.splits)
  also have "\<dots> = ([upstreamRequest rt q],
            case contentOf result of
              None \<Rightarrow> \<lparr>Code = 500,
                        Json = Some [(''error'', JString ''Unexpected response structure from API'')]\<rparr>
            | Some answer \<Rightarrow> \<lparr>Code = 200, Json = Some [(''answer'', JString answer)]\<rparr>)"
    by (simp add: contentOf_def assert_slice_Some assert_map_Some assert_string_Some
        split: option.splits list.splits json.splits)
  finally show ?thesis .
qed

text \<open>The handler's walk agrees with \<open>contentOf\<close> in both directions.\<close>

lemma contentOf_Some:
  assumes "mapIndex result ''choices'' = Some (JArray (JObject choice # rest))"
    and "mapIndex choice ''message'' = Some (JObject message)"
    and "mapIndex message ''content'' = Some (JString content)"
  shows "contentOf result = Some content"
  using assms by (simp add: contentOf_def)

lemma contentOf_SomeD:
  assumes "contentOf result = Some content"
  shows "\<exists>choice rest message.
           mapIndex result ''choices'' = Some (JArray (JObject choice # rest)) \<and>
           mapIndex choice ''message'' = Some (JObject message) \<and>
           mapIndex message ''content'' = Some (JString content)"
  using assms
  by (auto simp: contentOf_def split: option.splits json.splits list.splits)

lemma Unmarshal_object:
  "Decode rt body = Inr (JObject result) \<Longrightarrow> Unmarshal rt body = Inr result"
  by (simp add: Unmarshal_def)

subsection \<open>The example runtime, evaluated\<close>

lemma example_Decode [simp]: "Decode (exampleRuntime upstream) = exampleDecode"
  by (simp add: exampleRuntime_def)

lemma example_Do [simp]: "Do (exampleRuntime upstream) = upstream"
  by (simp add: exampleRuntime_def)

lemma example_RoundTrips [simp]: "RoundTrips (exampleRuntime upstream) req = [req]"
  by (simp add: exampleRuntime_def)

lemma exampleDecode_hi:
  \<open>exampleDecode ''{"question":"hi"}'' = Inr (JObject [(''question'', JString ''hi'')])\<close>
  by (simp add: exampleDecode_def)

lemma exampleDecode_hi_more:
  \<open>exampleDecode ''{"question":"hi","model":"tiny","temperature":2}'' =
     Inr (JObject [(''question'', JString ''hi''), (''model'', JString ''tiny''),
                   (''temperature'', JNumber 2)])\<close>
  by (simp add: exampleDecode_def)

lemma exampleDecode_empty_question:
  \<open>exampleDecode ''{"question":""}'' = Inr (JObject [(''question'', JString '''')])\<close>
  by (simp add: exampleDecode_def)

lemma exampleDecode_blank_question:
  \<open>exampleDecode ''{"question":" "}'' = Inr (JObject [(''question'', JString '' '')])\<close>
  by (simp add: exampleDecode_def)

lemma exampleDecode_42:
  \<open>exampleDecode ''{"choices":[{"message":{"content":"42"}}]}'' =
     Inr (JObject [(''choices'', JArray
            [JObject [(''message'', JObject [(''content'', JString ''42'')])]])])\<close>
  by (simp add: exampleDecode_def)

lemma exampleDecode_no_choices:
  \<open>exampleDecode ''{"choices":[]}'' = Inr (JObject [(''choices'', JArray [])])\<close>
  by (simp add: exampleDecode_def)

lemma exampleDecode_empty_object: \<open>exampleDecode ''{}'' = Inr (JObject [])\<close>
  by (simp add: exampleDecode_def)

lemma exampleDecode_array: \<open>exampleDecode ''[]'' = Inr (JArray [])\<close>
  by (simp add: exampleDecode_def)

lemma exampleDecode_null: \<open>exampleDecode ''null'' = Inr JNull\<close>
  by (simp add: exampleDecode_def)

lemma exampleDecode_truncated:
  \<open>exampleDecode ''{"question"'' = Inl ''unexpected end of JSON input''\<close>
  by (simp add: exampleDecode_def)

lemma mapIndex_single [simp]: "mapIndex [(k, v)] k = Some v"
  by (simp add: mapIndex_def)

subsection \<open>Request validation\<close>

text \<open>Decoding into the map fails on text that is not JSON and on a JSON array, string, number
  or boolean, and on nothing else.\<close>

lemma Unmarshal_fails_iff:
  "(\<exists>err. Unmarshal rt data = Inl err) \<longleftrightarrow>
     (\<exists>err. Decode rt data = Inl err) \<or>
     (\<exists>v. Decode rt data = Inr v \<and> kindOf v \<in> {''array'', ''string'', ''number'', ''bool''})"
proof (cases "Decode rt data")
  case (Inl err)
  then show ?thesis by (simp add: Unmarshal_def)
next
  case (Inr v)
  then show ?thesis by (cases v) (simp_all add: Unmarshal_def)
qed

text \<open>
  C8. When decoding the request body fails (the text is not JSON, or it is a JSON array,
  string, number or boolean, which do not fit the map), the handler answers 400 with the error
  \<open>Invalid request body\<close> and issues no upstream request. JSON \<open>null\<close> does not fail to
  decode: it leaves the map nil and is handled by the check of \<open>question\<close>.
\<close>

theorem invalid_body_rejected:
  assumes "BodyParser rt reqBody = Inl err"
  shows "chatHandler rt reqBody =
           ([], \<lparr>Code = 400, Json = Some [(''error'', JString ''Invalid request body'')]\<rparr>)"
  using assms by (simp add: chatHandler_def JSON_with_body StatusBadRequest_def)

theorem invalid_body_rejected_witness:
  \<open>chatHandler (exampleRuntime unreachable) ''{"question"'' =
           ([], \<lparr>Code = 400, Json = Some [(''error'', JString ''Invalid request body'')]\<rparr>)
   \<and> chatHandler (exampleRuntime unreachable) ''[]'' =
           ([], \<lparr>Code = 400, Json = Some [(''error'', JString ''Invalid request body'')]\<rparr>)\<close>
proof -
  have a: \<open>BodyParser (exampleRuntime unreachable) ''{"question"'' = Inl ''unexpected end of JSON input''\<close>
    by (simp add: BodyParser_def Unmarshal_def exampleRuntime_def exampleDecode_def)
  have b: \<open>BodyParser (exampleRuntime unreachable) ''[]'' = Inl (UnmarshalTypeError (JArray []))\<close>
    by (simp add: BodyParser_def Unmarshal_def exampleRuntime_def exampleDecode_def)
  show ?thesis
    using invalid_body_rejected [OF a] invalid_body_rejected [OF b] by simp
qed

text \<open>
  C3 (amended). When the request body decodes to a JSON object whose \<open>question\<close> is absent,
  not a string, or the empty string, the handler answers 400 with the error
  \<open>Invalid question format or empty question\<close> and issues no upstream request. The source
  compares \<open>question\<close> with the empty string only and trims nothing, so a question made of
  white space is not among the rejected ones.
\<close>

theorem missing_or_empty_question_rejected:
  assumes "Decode rt reqBody = Inr (JObject m)"
    and "\<forall>q. mapIndex m ''question'' = Some (JString q) \<longrightarrow> q = ''''"
  shows "chatHandler rt reqBody =
           ([], \<lparr>Code = 400,
                 Json = Some [(''error'', JString ''Invalid question format or empty question'')]\<rparr>)"
proof (cases "assert_string (mapIndex m ''question'')")
  case None
  with assms(1) show ?thesis
    by (simp add: chatHandler_def BodyParser_object JSON_with_body StatusBadRequest_def)
next
  case (Some q)
  then have "mapIndex m ''question'' = Some (JString q)"
    by (simp add: assert_string_Some)
  with assms(2) have "q = ''''" by blast
  with Some assms(1) show ?thesis
    by (simp add: chatHandler_def BodyParser_object JSON_with_body StatusBadRequest_def)
qed

theorem missing_or_empty_question_rejected_witness:
  \<open>chatHandler (exampleRuntime unreachable) ''{"question":""}'' =
     ([], \<lparr>Code = 400,
           Json = Some [(''error'', JString ''Invalid question format or empty question'')]\<rparr>)
   \<and> chatHandler (exampleRuntime unreachable) ''{}'' =
     ([], \<lparr>Code = 400,
           Json = Some [(''error'', JString ''Invalid question format or empty question'')]\<rparr>)\<close>
proof -
  let ?rt = "exampleRuntime unreachable"
  have a: \<open>Decode ?rt ''{"question":""}'' = Inr (JObject [(''question'', JString '''')])\<close>
    by (simp add: exampleDecode_empty_question)
  have a': "\<forall>q. mapIndex [(''question'', JString '''')] ''question'' = Some (JString q)
               \<longrightarrow> q = ''''"
    by simp
  have b: \<open>Decode ?rt ''{}'' = Inr (JObject [])\<close>
    by (simp add: exampleDecode_empty_object)
  have b': "\<forall>q. mapIndex [] ''question'' = Some (JString q) \<longrightarrow> q = ''''"
    by (simp add: mapIndex_def)
  show ?thesis
    using missing_or_empty_question_rejected [OF a a']
      missing_or_empty_question_rejected [OF b b']
    by simp
qed

text \<open>
  The claim as first stated also rejects a question of white space only. The body
  \<open>{"question":" "}\<close> passes the check: one upstream request is issued with the blank as the
  user message, and the upstream's answer is returned with status 200.
\<close>

theorem blank_question_forwarded_counterexample:
  \<open>chatHandler
      (exampleRuntime (answering ''200 OK'' 200 ''{"choices":[{"message":{"content":"42"}}]}''))
      ''{"question":" "}'' =
   ([upstreamRequest
       (exampleRuntime (answering ''200 OK'' 200 ''{"choices":[{"message":{"content":"42"}}]}''))
       '' ''],
    \<lparr>Code = 200, Json = Some [(''answer'', JString ''42'')]\<rparr>)\<close>
proof -
  let ?up = \<open>answering ''200 OK'' 200 ''{"choices":[{"message":{"content":"42"}}]}''\<close>
  let ?rt = "exampleRuntime ?up"
  have 1: \<open>Decode ?rt ''{"question":" "}'' = Inr (JObject [(''question'', JString '' '')])\<close>
    by (simp add: exampleDecode_blank_question)
  have 4: \<open>Do ?rt (upstreamRequest ?rt '' '') =
             Inr \<lparr>Status = ''200 OK'', StatusCode = 200,
                  Body = Inr ''{"choices":[{"message":{"content":"42"}}]}''\<rparr>\<close>
    by (simp add: answering_def)
  have 7: \<open>Unmarshal ?rt ''{"choices":[{"message":{"content":"42"}}]}'' =
             Inr [(''choices'', JArray
                    [JObject [(''message'', JObject [(''content'', JString ''42'')])]])]\<close>
    by (simp add: Unmarshal_def exampleDecode_42)
  have 8: "contentOf [(''choices'', JArray
                    [JObject [(''message'', JObject [(''content'', JString ''42'')])]])]
           = Some ''42''"
    by (simp add: contentOf_def)
  show ?thesis
    using chatHandler_extract [OF 1 _ _ 4 _ _ 7] by (simp add: 8)
qed

text \<open>
  C10. Two request bodies that decode to JSON objects with the same string under
  \<open>question\<close> give the same list of upstream requests and the same reply, against the same
  runtime: no other member of the request object is read.
\<close>

theorem only_question_matters:
  assumes "Decode rt reqBody1 = Inr (JObject m1)" and "Decode rt reqBody2 = Inr (JObject m2)"
    and "mapIndex m1 ''question'' = Some (JString q)"
    and "mapIndex m2 ''question'' = Some (JString q)"
  shows "chatHandler rt reqBody1 = chatHandler rt reqBody2"
  using assms by (simp add: chatHandler_def BodyParser_object)

theorem only_question_matters_witness:
  \<open>chatHandler
      (exampleRuntime (answering ''200 OK'' 200 ''{"choices":[{"message":{"content":"42"}}]}''))
      ''{"question":"hi"}'' =
   chatHandler
      (exampleRuntime (answering ''200 OK'' 200 ''{"choices":[{"message":{"content":"42"}}]}''))
      ''{"question":"hi","model":"tiny","temperature":2}''\<close>
proof -
  let ?up = \<open>answering ''200 OK'' 200 ''{"choices":[{"message":{"content":"42"}}]}''\<close>
  let ?rt = "exampleRuntime ?up"
  have 1: \<open>Decode ?rt ''{"question":"hi"}'' = Inr (JObject [(''question'', JString ''hi'')])\<close>
    by (simp add: exampleDecode_hi)
  have 2: \<open>Decode ?rt ''{"question":"hi","model":"tiny","temperature":2}'' =
     Inr (JObject [(''question'', JString ''hi''), (''model'', JString ''tiny''),
                   (''temperature'', JNumber 2)])\<close>
    by (simp add: exampleDecode_hi_more)
  have 3: "mapIndex [(''question'', JString ''hi'')] ''question'' = Some (JString ''hi'')"
    by simp
  have 4: "mapIndex [(''question'', JString ''hi''), (''model'', JString ''tiny''),
                   (''temperature'', JNumber 2)] ''question'' = Some (JString ''hi'')"
    by (simp add: mapIndex_def)
  show ?thesis
    by (rule only_question_matters [OF 1 2 3 4])
qed

subsection \<open>The upstream call\<close>

text \<open>
  C5. For a question \<open>q\<close> that passed validation, the body of the one request sent is the
  marshalled \<open>requestPayload q\<close>, an object with exactly the members \<open>model\<close>,
  \<open>messages\<close>, \<open>temperature\<close>, \<open>top_p\<close> and \<open>max_tokens\<close>: the messages are the
  constant system message followed by one user message whose content is \<open>q\<close> itself, the
  temperature is 0.5, \<open>top_p\<close> is 1, \<open>max_tokens\<close> is 1024 and the model is the constant
  \<open>meta/llama3-70b-instruct\<close>.
\<close>

theorem upstream_payload_fixed:
  assumes "Decode rt reqBody = Inr (JObject m)"
    and "mapIndex m ''question'' = Some (JString q)" and "q \<noteq> ''''"
  shows "map ReqBody (fst (chatHandler rt reqBody)) = [Marshal rt (requestPayload q)] \<and>
         (\<exists>fields.
            requestPayload q = JObject fields \<and>
            map fst fields = [''model'', ''messages'', ''temperature'', ''top_p'', ''max_tokens''] \<and>
            mapIndex fields ''messages'' =
              Some (JArray
                [JObject [(''role'', JString ''system''),
                          (''content'', JString ''You are an AI that provides direct answers to coding questions.'')],
                 JObject [(''role'', JString ''user''), (''content'', JString q)]]) \<and>
            mapIndex fields ''temperature'' = Some (JNumber (1 / 2)) \<and>
            mapIndex fields ''top_p'' = Some (JNumber 1) \<and>
            mapIndex fields ''max_tokens'' = Some (JNumber 1024) \<and>
            mapIndex fields ''model'' = Some (JString ''meta/llama3-70b-instruct''))"
proof
  show "map ReqBody (fst (chatHandler rt reqBody)) = [Marshal rt (requestPayload q)]"
    using chatHandler_validated [OF assms] by (simp add: upstreamRequest_def)
next
  show "\<exists>fields.
            requestPayload q = JObject fields \<and>
            map fst fields = [''model'', ''messages'', ''temperature'', ''top_p'', ''max_tokens''] \<and>
            mapIndex fields ''messages'' =
              Some (JArray
                [JObject [(''role'', JString ''system''),
                          (''content'', JString ''You are an AI that provides direct answers to coding questions.'')],
                 JObject [(''role'', JString ''user''), (''content'', JString q)]]) \<and>
            mapIndex fields ''temperature'' = Some (JNumber (1 / 2)) \<and>
            mapIndex fields ''top_p'' = Some (JNumber 1) \<and>
            mapIndex fields ''max_tokens'' = Some (JNumber 1024) \<and>
            mapIndex fields ''model'' = Some (JString ''meta/llama3-70b-instruct'')"
    by (simp add: requestPayload_def mapIndex_def)
qed

theorem upstream_payload_fixed_witness:
  \<open>map ReqBody (fst (chatHandler (exampleRuntime unreachable) ''{"question":"hi"}'')) =
     [''{"max_tokens":1024,"messages":[{"content":"You are an AI that provides direct answers to coding questions.","role":"system"},{"content":"hi","role":"user"}],"model":"meta/llama3-70b-instruct","temperature":0.5,"top_p":1}'']\<close>
proof -
  let ?rt = "exampleRuntime unreachable"
  have 1: \<open>Decode ?rt ''{"question":"hi"}'' = Inr (JObject [(''question'', JString ''hi'')])\<close>
    by (simp add: exampleDecode_hi)
  have 2: "mapIndex [(''question'', JString ''hi'')] ''question'' = Some (JString ''hi'')"
    by simp
  have 3: "''hi'' \<noteq> ''''" by simp
  have "Marshal ?rt (requestPayload ''hi'') = exampleMarshal (requestPayload ''hi'')"
    by (simp add: exampleRuntime_def)
  then show ?thesis
    using upstream_payload_fixed [OF 1 2 3] by (simp add: exampleMarshal_def)
qed

text \<open>
  C7 (amended). The handler calls \<open>client.Do\<close> at most once for any request body, and exactly
  once, with \<open>upstreamRequest rt q\<close>, when the question \<open>q\<close> passed validation. The HTTP
  requests on the wire are those of that one call: the request itself and whatever the client
  sends to follow redirects. When the call fails at the network level, while sending
  or while the body is read, the reply is 500 with an \<open>error\<close> member and the list of calls
  still has that single entry: the handler calls nothing again.
\<close>

theorem one_call_of_the_client:
  "length (fst (chatHandler rt reqBody)) \<le> 1 \<and>
   (Decode rt reqBody = Inr (JObject m) \<and> mapIndex m ''question'' = Some (JString q) \<and> q \<noteq> ''''
      \<longrightarrow> fst (chatHandler rt reqBody) = [upstreamRequest rt q] \<and>
          wireRequests rt reqBody = RoundTrips rt (upstreamRequest rt q) \<and>
          (\<forall>err. Do rt (upstreamRequest rt q) = Inl err \<longrightarrow>
             chatHandler rt reqBody =
               ([upstreamRequest rt q],
                \<lparr>Code = 500,
                  Json = Some [(''error'', JString (''Error sending request: '' @ err))]\<rparr>)) \<and>
          (\<forall>resp err. Do rt (upstreamRequest rt q) = Inr resp \<and> Body resp = Inl err \<longrightarrow>
             chatHandler rt reqBody =
               ([upstreamRequest rt q],
                \<lparr>Code = 500,
                  Json = Some [(''error'', JString (''Error reading response body: '' @ err))]\<rparr>)))"
proof -
  have "length (fst (chatHandler rt reqBody)) \<le> 1"
    by (simp add: handler_defs Let_def split: sum.splits option.splits list.splits)
  then show ?thesis
    by (auto simp: wireRequests_def chatHandler_validated chatHandler_unreachable
        chatHandler_read_failed)
qed

theorem one_call_of_the_client_witness:
  \<open>fst (chatHandler (exampleRuntime unreachable) ''{"question":"hi"}'') =
     [upstreamRequest (exampleRuntime unreachable) ''hi'']
   \<and> wireRequests (exampleRuntime unreachable) ''{"question":"hi"}'' =
     [upstreamRequest (exampleRuntime unreachable) ''hi'']
   \<and> snd (chatHandler (exampleRuntime unreachable) ''{"question":"hi"}'') =
     \<lparr>Code = 500,
       Json = Some [(''error'', JString ''Error sending request: Post "https://integrate.api.nvidia.com/v1/chat/completions": dial tcp 203.0.113.7:443: connect: connection refused'')]\<rparr>\<close>
proof -
  let ?rt = "exampleRuntime unreachable"
  show ?thesis
    using one_call_of_the_client
      [of ?rt \<open>''{"question":"hi"}''\<close> "[(''question'', JString ''hi'')]" "''hi''"]
    by (simp add: exampleDecode_hi unreachable_def)
qed

text \<open>
  The claim as first stated counts the HTTP requests issued to the upstream. When the upstream
  answers the handler's request with \<open>307 Temporary Redirect\<close>, the one call of \<open>client.Do\<close>
  sends a second request to the new location: two requests are on the wire for one inbound
  request, and the answer of the second is relayed.
\<close>

theorem redirect_followed_counterexample:
  \<open>length (wireRequests
             (redirectingRuntime (answering ''200 OK'' 200 ''{"choices":[{"message":{"content":"42"}}]}''))
             ''{"question":"hi"}'') = 2
   \<and> map URL (wireRequests
             (redirectingRuntime (answering ''200 OK'' 200 ''{"choices":[{"message":{"content":"42"}}]}''))
             ''{"question":"hi"}'') =
       [''https://integrate.api.nvidia.com/v1/chat/completions'',
        ''https://integrate.api.nvidia.com/v2/chat/completions'']
   \<and> length (fst (chatHandler
             (redirectingRuntime (answering ''200 OK'' 200 ''{"choices":[{"message":{"content":"42"}}]}''))
             ''{"question":"hi"}'')) = 1\<close>
proof -
  let ?up = \<open>answering ''200 OK'' 200 ''{"choices":[{"message":{"content":"42"}}]}''\<close>
  let ?rt = "redirectingRuntime ?up"
  have 1: \<open>Decode ?rt ''{"question":"hi"}'' = Inr (JObject [(''question'', JString ''hi'')])\<close>
    by (simp add: redirectingRuntime_def exampleDecode_hi)
  have 2: "mapIndex [(''question'', JString ''hi'')] ''question'' = Some (JString ''hi'')"
    by simp
  have 3: "''hi'' \<noteq> ''''" by simp
  have "RoundTrips ?rt = redirectedOnce"
    by (simp add: redirectingRuntime_def)
  then show ?thesis
    using chatHandler_validated [OF 1 2 3]
    by (simp add: wireRequests_def redirectedOnce_def upstreamRequest_def apiURL_def)
qed




subsection \<open>Extraction of the answer\<close>

text \<open>
  C1 (amended). When the upstream answers with status code 200 and a body that decodes to an
  object whose \<open>choices\<close> is an array with an object first, whose \<open>message\<close> is an object,
  whose \<open>content\<close> is a string, the reply is 200 with the single member \<open>answer\<close> equal to
  that string, unchanged. With the body \<open>{"choices":[{"message":{"content":"42"}}]}\<close> the
  reply is \<open>{"answer":"42"}\<close>.
\<close>

theorem answer_is_content:
  assumes "Decode rt reqBody = Inr (JObject m)"
    and "mapIndex m ''question'' = Some (JString q)" and "q \<noteq> ''''"
    and "Do rt (upstreamRequest rt q) = Inr resp" and "Body resp = Inr body"
    and "StatusCode resp = 200"
    and "Decode rt body = Inr (JObject result)"
    and "mapIndex result ''choices'' = Some (JArray (JObject choice # rest))"
    and "mapIndex choice ''message'' = Some (JObject message)"
    and "mapIndex message ''content'' = Some (JString content)"
  shows "snd (chatHandler rt reqBody) = \<lparr>Code = 200, Json = Some [(''answer'', JString content)]\<rparr>"
proof -
  have "contentOf result = Some content"
    using assms(8-10) by (rule contentOf_Some)
  moreover have "Unmarshal rt body = Inr result"
    using assms(7) by (rule Unmarshal_object)
  ultimately show ?thesis
    using chatHandler_extract [OF assms(1-6)] by simp
qed

theorem answer_is_content_witness:
  \<open>snd (chatHandler
          (exampleRuntime (answering ''200 OK'' 200 ''{"choices":[{"message":{"content":"42"}}]}''))
          ''{"question":"hi"}'') =
   \<lparr>Code = 200, Json = Some [(''answer'', JString ''42'')]\<rparr>\<close>
proof -
  let ?up = \<open>answering ''200 OK'' 200 ''{"choices":[{"message":{"content":"42"}}]}''\<close>
  let ?rt = "exampleRuntime ?up"
  have 1: \<open>Decode ?rt ''{"question":"hi"}'' = Inr (JObject [(''question'', JString ''hi'')])\<close>
    by (simp add: exampleDecode_hi)
  have 2: "mapIndex [(''question'', JString ''hi'')] ''question'' = Some (JString ''hi'')"
    by simp
  have 3: "''hi'' \<noteq> ''''" by simp
  have 4: \<open>Do ?rt (upstreamRequest ?rt ''hi'') =
             Inr \<lparr>Status = ''200 OK'', StatusCode = 200,
                  Body = Inr ''{"choices":[{"message":{"content":"42"}}]}''\<rparr>\<close>
    by (simp add: answering_def)
  have 7: \<open>Decode ?rt ''{"choices":[{"message":{"content":"42"}}]}'' =
             Inr (JObject [(''choices'', JArray
                    [JObject [(''message'', JObject [(''content'', JString ''42'')])]])])\<close>
    by (simp add: exampleDecode_42)
  have 8: "mapIndex [(''choices'', JArray
                    [JObject [(''message'', JObject [(''content'', JString ''42'')])]])] ''choices''
           = Some (JArray (JObject [(''message'', JObject [(''content'', JString ''42'')])] # []))"
    by simp
  have 9: "mapIndex [(''message'', JObject [(''content'', JString ''42'')])] ''message''
           = Some (JObject [(''content'', JString ''42'')])"
    by simp
  have 10: "mapIndex [(''content'', JString ''42'')] ''content'' = Some (JString ''42'')"
    by simp
  show ?thesis
    using answer_is_content [OF 1 2 3 4 _ _ 7 8 9 10] by simp
qed

text \<open>
  The claim as first stated speaks of every well-shaped 2xx body. With status
  \<open>201 Created\<close> and the same well-shaped body no answer is returned: the reply is the
  non-200 error with status 201.
\<close>

theorem answer_withheld_on_201_counterexample:
  \<open>snd (chatHandler
          (exampleRuntime (answering ''201 Created'' 201 ''{"choices":[{"message":{"content":"42"}}]}''))
          ''{"question":"hi"}'') =
   \<lparr>Code = 201,
     Json = Some [(''error'', JString (''API returned non-200 status: 201 Created'' @ [CHR 0x0A]
               @ ''Body: {"choices":[{"message":{"content":"42"}}]}''))]\<rparr>
   \<and> (case Json (snd (chatHandler
          (exampleRuntime (answering ''201 Created'' 201 ''{"choices":[{"message":{"content":"42"}}]}''))
          ''{"question":"hi"}'')) of
        None \<Rightarrow> None
      | Some members \<Rightarrow> mapIndex members ''answer'') = None\<close>
proof -
  let ?up = \<open>answering ''201 Created'' 201 ''{"choices":[{"message":{"content":"42"}}]}''\<close>
  let ?rt = "exampleRuntime ?up"
  have 1: \<open>Decode ?rt ''{"question":"hi"}'' = Inr (JObject [(''question'', JString ''hi'')])\<close>
    by (simp add: exampleDecode_hi)
  have 4: \<open>Do ?rt (upstreamRequest ?rt ''hi'') =
             Inr \<lparr>Status = ''201 Created'', StatusCode = 201,
                  Body = Inr ''{"choices":[{"message":{"content":"42"}}]}''\<rparr>\<close>
    by (simp add: answering_def)
  show ?thesis
    using chatHandler_not_200 [OF 1 _ _ 4] by (simp add: mapIndex_def JSON_eval)
qed

text \<open>
  C2 (amended). When the upstream answers with status code 200 and a body that decodes to an
  object without the path \<open>choices[0].message.content\<close> ending in a string (at whichever
  level the path breaks), the reply is 500 with the one error
  \<open>Unexpected response structure from API\<close>.
\<close>

theorem unexpected_shape_is_500:
  assumes "Decode rt reqBody = Inr (JObject m)"
    and "mapIndex m ''question'' = Some (JString q)" and "q \<noteq> ''''"
    and "Do rt (upstreamRequest rt q) = Inr resp" and "Body resp = Inr body"
    and "StatusCode resp = 200"
    and "Decode rt body = Inr (JObject result)"
    and "\<nexists>choice rest message content.
           mapIndex result ''choices'' = Some (JArray (JObject choice # rest)) \<and>
           mapIndex choice ''message'' = Some (JObject message) \<and>
           mapIndex message ''content'' = Some (JString content)"
  shows "snd (chatHandler rt reqBody) =
           \<lparr>Code = 500, Json = Some [(''error'', JString ''Unexpected response structure from API'')]\<rparr>"
proof -
  have "contentOf result = None"
  proof (cases "contentOf result")
    case (Some content)
    from contentOf_SomeD [OF this] assms(8) show ?thesis by blast
  qed simp
  moreover have "Unmarshal rt body = Inr result"
    using assms(7) by (rule Unmarshal_object)
  ultimately show ?thesis
    using chatHandler_extract [OF assms(1-6)] by simp
qed

theorem unexpected_shape_is_500_witness:
  \<open>snd (chatHandler (exampleRuntime (answering ''200 OK'' 200 ''{"choices":[]}''))
          ''{"question":"hi"}'') =
     \<lparr>Code = 500, Json = Some [(''error'', JString ''Unexpected response structure from API'')]\<rparr>\<close>
proof -
  let ?up = \<open>answering ''200 OK'' 200 ''{"choices":[]}''\<close>
  let ?rt = "exampleRuntime ?up"
  have 1: \<open>Decode ?rt ''{"question":"hi"}'' = Inr (JObject [(''question'', JString ''hi'')])\<close>
    by (simp add: exampleDecode_hi)
  have 4: \<open>Do ?rt (upstreamRequest ?rt ''hi'') =
             Inr \<lparr>Status = ''200 OK'', StatusCode = 200, Body = Inr ''{"choices":[]}''\<rparr>\<close>
    by (simp add: answering_def)
  have 7: \<open>Decode ?rt ''{"choices":[]}'' = Inr (JObject [(''choices'', JArray [])])\<close>
    by (simp add: exampleDecode_no_choices)
  have 8: "\<nexists>choice rest message content.
           mapIndex [(''choices'', JArray [])] ''choices'' = Some (JArray (JObject choice # rest)) \<and>
           mapIndex choice ''message'' = Some (JObject message) \<and>
           mapIndex message ''content'' = Some (JString content)"
    by simp
  show ?thesis
    using unexpected_shape_is_500 [OF 1 _ _ 4 _ _ 7 8] by simp
qed

text \<open>
  The claim as first stated promises 500 for every 2xx body of the wrong shape. With status
  \<open>201 Created\<close> and the body \<open>{}\<close> the reply has status 201 and the non-200 error.
\<close>

theorem unexpected_shape_on_201_counterexample:
  \<open>snd (chatHandler (exampleRuntime (answering ''201 Created'' 201 ''{}''))
          ''{"question":"hi"}'') =
     \<lparr>Code = 201,
       Json = Some [(''error'', JString (''API returned non-200 status: 201 Created'' @ [CHR 0x0A]
                 @ ''Body: {}''))]\<rparr>
   \<and> Code (snd (chatHandler (exampleRuntime (answering ''201 Created'' 201 ''{}''))
          ''{"question":"hi"}'')) \<noteq> 500\<close>
proof -
  let ?up = \<open>answering ''201 Created'' 201 ''{}''\<close>
  let ?rt = "exampleRuntime ?up"
  have 1: \<open>Decode ?rt ''{"question":"hi"}'' = Inr (JObject [(''question'', JString ''hi'')])\<close>
    by (simp add: exampleDecode_hi)
  have 4: \<open>Do ?rt (upstreamRequest ?rt ''hi'') =
             Inr \<lparr>Status = ''201 Created'', StatusCode = 201, Body = Inr ''{}''\<rparr>\<close>
    by (simp add: answering_def)
  show ?thesis
    using chatHandler_not_200 [OF 1 _ _ 4] by (simp add: JSON_eval)
qed

text \<open>
  C9 (amended). When the upstream answers with status code 200 and a body that is a JSON
  array, string, number or boolean, the reply is 500 with the error
  \<open>Error parsing JSON response: \<close> followed by the text of the type error. JSON \<open>null\<close> is
  valid JSON and not an object either, but unmarshalling it is no error.
\<close>

theorem non_object_json_is_parse_error:
  assumes "Decode rt reqBody = Inr (JObject m)"
    and "mapIndex m ''question'' = Some (JString q)" and "q \<noteq> ''''"
    and "Do rt (upstreamRequest rt q) = Inr resp" and "Body resp = Inr body"
    and "StatusCode resp = 200"
    and "Decode rt body = Inr v" and "kindOf v \<in> {''array'', ''string'', ''number'', ''bool''}"
  shows "snd (chatHandler rt reqBody) =
           \<lparr>Code = 500,
             Json = Some [(''error'', JString (''Error parsing JSON response: ''
                                          @ UnmarshalTypeError v))]\<rparr>"
proof -
  have "Unmarshal rt body = Inl (UnmarshalTypeError v)"
    using assms(7,8) by (cases v) (simp_all add: Unmarshal_def)
  from chatHandler_parse_error [OF assms(1-6) this] show ?thesis by simp
qed

theorem non_object_json_is_parse_error_witness:
  \<open>snd (chatHandler (exampleRuntime (answering ''200 OK'' 200 ''[]'')) ''{"question":"hi"}'') =
     \<lparr>Code = 500,
       Json = Some [(''error'', JString ''Error parsing JSON response: json: cannot unmarshal array into Go value of type map[string]interface {}'')]\<rparr>\<close>
proof -
  let ?up = \<open>answering ''200 OK'' 200 ''[]''\<close>
  let ?rt = "exampleRuntime ?up"
  have 1: \<open>Decode ?rt ''{"question":"hi"}'' = Inr (JObject [(''question'', JString ''hi'')])\<close>
    by (simp add: exampleDecode_hi)
  have 4: \<open>Do ?rt (upstreamRequest ?rt ''hi'') =
             Inr \<lparr>Status = ''200 OK'', StatusCode = 200, Body = Inr ''[]''\<rparr>\<close>
    by (simp add: answering_def)
  have 7: \<open>Decode ?rt ''[]'' = Inr (JArray [])\<close>
    by (simp add: exampleDecode_array)
  have 8: "kindOf (JArray []) \<in> {''array'', ''string'', ''number'', ''bool''}"
    by simp
  show ?thesis
    using non_object_json_is_parse_error [OF 1 _ _ 4 _ _ 7 8]
    by (simp add: UnmarshalTypeError_def)
qed

text \<open>
  The claim as first stated covers every valid JSON body that is not an object. The body
  \<open>null\<close> decodes without error to the nil map, in which \<open>choices\<close> is missing: the reply
  is the shape error, not the parse error.
\<close>

theorem null_body_is_shape_error_counterexample:
  \<open>snd (chatHandler (exampleRuntime (answering ''200 OK'' 200 ''null'')) ''{"question":"hi"}'') =
     \<lparr>Code = 500, Json = Some [(''error'', JString ''Unexpected response structure from API'')]\<rparr>
   \<and> Decode (exampleRuntime (answering ''200 OK'' 200 ''null'')) ''null'' = Inr JNull\<close>
proof -
  let ?up = \<open>answering ''200 OK'' 200 ''null''\<close>
  let ?rt = "exampleRuntime ?up"
  have 1: \<open>Decode ?rt ''{"question":"hi"}'' = Inr (JObject [(''question'', JString ''hi'')])\<close>
    by (simp add: exampleDecode_hi)
  have 4: \<open>Do ?rt (upstreamRequest ?rt ''hi'') =
             Inr \<lparr>Status = ''200 OK'', StatusCode = 200, Body = Inr ''null''\<rparr>\<close>
    by (simp add: answering_def)
  have 5: \<open>Unmarshal ?rt ''null'' = Inr []\<close>
    by (simp add: Unmarshal_def exampleDecode_null)
  have 6: "contentOf [] = None"
    by (simp add: contentOf_def mapIndex_def)
  show ?thesis
    using chatHandler_extract [OF 1 _ _ 4 _ _ 5] by (simp add: 6 exampleDecode_null)
qed

subsection \<open>The shape of every reply\<close>

text \<open>Every return path of the handler sets a body with exactly one member, \<open>answer\<close> or
  \<open>error\<close>. What reaches the caller has that body, or no body at all when the status code is
  one that fasthttp writes without body.\<close>

lemma reply_member_names:
  "(case Json (snd (chatHandler rt reqBody)) of
      None \<Rightarrow> mustSkipContentLength (Code (snd (chatHandler rt reqBody)))
    | Some members \<Rightarrow> map fst members = [''answer''] \<or> map fst members = [''error''])"
  by (simp add: chatHandler_def NewRequest_def Header_Set_def ReadAll_def JSON_def Let_def
      StatusBadRequest_def StatusInternalServerError_def StatusOK_def
      ResponseHeader_StatusCode_def mustSkipContentLength_def
      split: sum.splits option.splits list.splits)

text \<open>
  C6. The reply that reaches the caller should carry exactly one of the members \<open>answer\<close> and
  \<open>error\<close>, for every request body and every outcome of the upstream call. The handler
  sets exactly one of them on every return path, but at line 121 it passes the upstream's
  status code through: when the upstream answers \<open>204 No Content\<close>, the reply has status 204
  and is written without body, so the caller receives neither member.
\<close>

theorem no_content_reply_has_neither_member:
  \<open>snd (chatHandler (exampleRuntime (answering ''204 No Content'' 204 '''')) ''{"question":"hi"}'')
   = \<lparr>Code = 204, Json = None\<rparr>\<close>
proof -
  let ?up = \<open>answering ''204 No Content'' 204 ''''\<close>
  let ?rt = "exampleRuntime ?up"
  have 1: \<open>Decode ?rt ''{"question":"hi"}'' = Inr (JObject [(''question'', JString ''hi'')])\<close>
    by (simp add: exampleDecode_hi)
  have 4: \<open>Do ?rt (upstreamRequest ?rt ''hi'') =
             Inr \<lparr>Status = ''204 No Content'', StatusCode = 204, Body = Inr ''''\<rparr>\<close>
    by (simp add: answering_def)
  show ?thesis
    using chatHandler_not_200 [OF 1 _ _ 4] by (simp add: JSON_eval)
qed

end
